theory Spec2Isabelle
  imports Main
begin

section \<open>Dates\<close>

text \<open>
  Python's \<^verbatim>\<open>datetime.date\<close>: a calendar day of the proleptic Gregorian calendar.
  \<open>toordinal\<close> follows the standard library (\<^verbatim>\<open>_ymd2ord\<close>), so that
  \<^verbatim>\<open>(d1 - d2).days\<close> is \<open>toordinal d1 - toordinal d2\<close>, and the database orders dates
  by it.
\<close>

record date =
  year :: nat
  month :: nat
  day :: nat

definition is_leap :: "nat \<Rightarrow> bool" where
  "is_leap y = (y mod 4 = 0 \<and> (y mod 100 \<noteq> 0 \<or> y mod 400 = 0))"

definition days_before_year :: "nat \<Rightarrow> int" where
  "days_before_year y =
     (let z = int y - 1 in z * 365 + z div 4 - z div 100 + z div 400)"

definition days_before_month :: "nat \<Rightarrow> nat \<Rightarrow> int" where
  "days_before_month y m =
     (if 1 \<le> m \<and> m \<le> 12
      then [0, 31, 59, 90, 120, 151, 181, 212, 243, 273, 304, 334] ! (m - 1)
           + (if 2 < m \<and> is_leap y then 1 else 0)
      else 0)"

definition toordinal :: "date \<Rightarrow> int" where
  "toordinal d = days_before_year (year d) + days_before_month (year d) (month d) + int (day d)"

text \<open>\<^verbatim>\<open>(a - b).days\<close> for two dates.\<close>

definition days_between :: "date \<Rightarrow> date \<Rightarrow> int" where
  "days_between a b = toordinal a - toordinal b"

section \<open>The data model of models.py\<close>

text \<open>
  One record per model, holding the columns the modelled functions read or write; a
  foreign key is the referenced row's id. The tables are lists of rows, in storage order.

  \<open>data_validade\<close> is a \<^verbatim>\<open>DateField\<close> without \<^verbatim>\<open>null=True\<close> (models.py, 407-410):
  every stored lot has a date. \<open>qtd_estoque\<close>, \<open>dias_para_critico\<close> and
  \<open>dias_para_pre_bloqueio\<close> are \<^verbatim>\<open>PositiveIntegerField\<close>s: stored values are not negative.
\<close>

text \<open>
  Modelled from the spec: the column \<open>fator_conversao\<close> of \<open>SKU\<close> (the product's conversion
  factor, an integer) and the column \<open>estoque_display\<close> of \<open>LoteValidade\<close> (the display
  text of the aggregate stock). models.py declares neither; services.py reads and writes
  both as columns, and serializers.py lists both among the model fields.
\<close>

record ConfiguracaoAlerta =
  cfg_id :: nat
  cfg_unidade :: "nat option"
  dias_para_critico :: nat
  dias_para_pre_bloqueio :: nat
  cfg_ativo :: bool

record SKU =
  sku_id :: nat
  codigo_sku :: string
  nome_produto :: string
  unidade_negocio :: nat
  unidade_medida :: string
  fator_conversao :: int
  sku_ativo :: bool

record LoteValidade =
  lote_id :: nat
  lote_sku :: nat
  numero_lote :: string
  data_validade :: date
  qtd_estoque :: int
  estoque_display :: string
  lote_ativo :: bool

record banco =
  skus :: "SKU list"
  lotes :: "LoteValidade list"
  configuracoes :: "ConfiguracaoAlerta list"

text \<open>\<^verbatim>\<open>QuerySet.first()\<close>: the first row of a query's result, or \<^verbatim>\<open>None\<close>.\<close>

definition first :: "'a list \<Rightarrow> 'a option" where
  "first xs = (case xs of [] \<Rightarrow> None | x # _ \<Rightarrow> Some x)"

section \<open>The status classifier (SKU.get\_status)\<close>

text \<open>
  \<^verbatim>\<open>self.lotes.filter(ativo=True, qtd_estoque__gt=0).order_by('data_validade').first()\<close>.
  The order among lots of one date is the database's choice; here it is the storage order
  (\<open>sort_key\<close> is stable). No theorem below depends on it.
\<close>

definition lotes_elegiveis :: "LoteValidade list \<Rightarrow> SKU \<Rightarrow> LoteValidade list" where
  "lotes_elegiveis ls s =
     filter (\<lambda>l. lote_sku l = sku_id s \<and> lote_ativo l \<and> 0 < qtd_estoque l) ls"

definition lote_mais_proximo :: "LoteValidade list \<Rightarrow> SKU \<Rightarrow> LoteValidade option" where
  "lote_mais_proximo ls s =
     first (sort_key (\<lambda>l. toordinal (data_validade l)) (lotes_elegiveis ls s))"

record status_info =
  status :: string
  cor :: string
  dias_restantes :: "int option"
  lote :: "LoteValidade option"

text \<open>
  \<^verbatim>\<open>getattr(self.unidade_negocio, 'configuracao_alerta', None)\<close>: the reverse side of the
  one-to-one field, the configuration whose unit is the product's unit, whatever its
  \<open>ativo\<close> flag says; \<^verbatim>\<open>None\<close> when the unit has none.
\<close>

definition configuracao_da_unidade :: "banco \<Rightarrow> nat \<Rightarrow> ConfiguracaoAlerta option" where
  "configuracao_da_unidade b u = find (\<lambda>c. cfg_unidade c = Some u) (configuracoes b)"

text \<open>
  \<^verbatim>\<open>ConfiguracaoAlerta.objects.filter(unidade__isnull=True, ativo=True).first()\<close>; the model
  has no default ordering, so \<^verbatim>\<open>first()\<close> orders by primary key.
\<close>

definition configuracao_global :: "banco \<Rightarrow> ConfiguracaoAlerta option" where
  "configuracao_global b =
     first (sort_key cfg_id (filter (\<lambda>c. cfg_unidade c = None \<and> cfg_ativo c) (configuracoes b)))"

text \<open>Lines 342-352 of models.py: the configuration \<open>get_status\<close> goes on with.\<close>

definition resolve_config ::
  "banco \<Rightarrow> SKU \<Rightarrow> ConfiguracaoAlerta option \<Rightarrow> ConfiguracaoAlerta option" where
  "resolve_config b s config =
     (case config of
        Some c \<Rightarrow> Some c
      | None \<Rightarrow>
          (case configuracao_da_unidade b (unidade_negocio s) of
             Some c \<Rightarrow> Some c
           | None \<Rightarrow> configuracao_global b))"

text \<open>Lines 355-356: the two thresholds, 30 and 45 without a configuration.\<close>

definition limiares :: "ConfiguracaoAlerta option \<Rightarrow> nat \<times> nat" where
  "limiares config =
     (case config of
        Some c \<Rightarrow> (dias_para_critico c, dias_para_pre_bloqueio c)
      | None \<Rightarrow> (30, 45))"

text \<open>Lines 361-388: the chain of comparisons, first match first.\<close>

definition classificar :: "int \<Rightarrow> nat \<Rightarrow> nat \<Rightarrow> LoteValidade \<Rightarrow> status_info" where
  "classificar dias dias_critico dias_pre_bloqueio l =
     (if dias < 0 then
        \<lparr>status = ''VENCIDO'', cor = ''preto'', dias_restantes = Some dias, lote = Some l\<rparr>
      else if dias \<le> int dias_critico then
        \<lparr>status = ''CRITICO'', cor = ''vermelho'', dias_restantes = Some dias, lote = Some l\<rparr>
      else if dias \<le> int dias_pre_bloqueio then
        \<lparr>status = ''PRE_BLOQUEIO'', cor = ''amarelo'', dias_restantes = Some dias, lote = Some l\<rparr>
      else
        \<lparr>status = ''OK'', cor = ''verde'', dias_restantes = Some dias, lote = Some l\<rparr>)"

definition sem_estoque :: status_info where
  "sem_estoque = \<lparr>status = ''SEM_ESTOQUE'', cor = ''cinza'', dias_restantes = None, lote = None\<rparr>"

text \<open>
  \<open>get_status\<close>; \<open>hoje\<close> is what \<^verbatim>\<open>date.today()\<close> returns, \<open>config\<close> the optional argument.
\<close>

definition get_status ::
  "banco \<Rightarrow> date \<Rightarrow> SKU \<Rightarrow> ConfiguracaoAlerta option \<Rightarrow> status_info" where
  "get_status b hoje s config =
     (case lote_mais_proximo (lotes b) s of
        None \<Rightarrow> sem_estoque
      | Some l \<Rightarrow>
          (let (dias_critico, dias_pre_bloqueio) = limiares (resolve_config b s config);
               dias = days_between (data_validade l) hoje
           in classificar dias dias_critico dias_pre_bloqueio l))"

section \<open>Strings\<close>

text \<open>
  \<^verbatim>\<open>str.strip()\<close> removes the white space at both ends (for ASCII text: tab, line feed,
  vertical tab, form feed, carriage return, the four separators 28-31 and the blank);
  \<^verbatim>\<open>str.upper()\<close> on ASCII letters.
\<close>

definition is_space :: "char \<Rightarrow> bool" where
  "is_space c = (let n = (of_char c :: nat) in (9 \<le> n \<and> n \<le> 13) \<or> (28 \<le> n \<and> n \<le> 32))"

definition strip :: "string \<Rightarrow> string" where
  "strip s = rev (dropWhile is_space (rev (dropWhile is_space s)))"

definition upper_char :: "char \<Rightarrow> char" where
  "upper_char c =
     (let n = (of_char c :: nat) in if 97 \<le> n \<and> n \<le> 122 then char_of (n - 32) else c)"

definition upper :: "string \<Rightarrow> string" where
  "upper s = map upper_char s"

text \<open>
  The test of both loops on the product code, \<^verbatim>\<open>not codigo_sku or codigo_sku == 'nan'\<close>
  after \<^verbatim>\<open>strip()\<close>: such a row is passed over.
\<close>

definition sem_codigo :: "string \<Rightarrow> bool" where
  "sem_codigo celula = (strip celula = [] \<or> strip celula = ''nan'')"



section \<open>The store: Django's ORM over the tables of models.py\<close>

datatype exn =
    DoesNotExist
  | MultipleObjectsReturned
  | IntegrityError
  | TransactionManagementError
  | TypeError
  | ValueError
  | AttributeError

text \<open>
  The database connection inside \<^verbatim>\<open>transaction.atomic\<close>: the tables as the transaction
  sees them, and Django's \<^verbatim>\<open>needs_rollback\<close> flag. Once the flag is set every query raises
  \<^verbatim>\<open>TransactionManagementError\<close> until the block ends, and the block ends in a rollback.
\<close>

record transacao =
  banco_tx :: banco
  needs_rollback :: bool

text \<open>\<^verbatim>\<open>QuerySet.get\<close> on the rows a filter leaves.\<close>

definition get_um :: "'a list \<Rightarrow> exn + 'a" where
  "get_um xs =
     (case xs of
        [] \<Rightarrow> Inl DoesNotExist
      | [x] \<Rightarrow> Inr x
      | _ # _ # _ \<Rightarrow> Inl MultipleObjectsReturned)"

text \<open>The primary key of a new row.\<close>

definition novo_id :: "nat list \<Rightarrow> nat" where
  "novo_id ids = Suc (fold max ids 0)"

definition sku_get :: "(SKU \<Rightarrow> bool) \<Rightarrow> transacao \<Rightarrow> exn + SKU" where
  "sku_get P t =
     (if needs_rollback t then Inl TransactionManagementError
      else get_um (filter P (skus (banco_tx t))))"

text \<open>
  \<^verbatim>\<open>SKU.objects.create\<close>: the insert is refused when the pair (codigo\_sku, unidade\_negocio)
  is taken (\<^verbatim>\<open>unique_together\<close>). \<open>ativo\<close> takes its default, \<^verbatim>\<open>True\<close>.
\<close>

definition sku_create ::
  "string \<Rightarrow> nat \<Rightarrow> string \<Rightarrow> string \<Rightarrow> int \<Rightarrow> transacao \<Rightarrow> exn + (SKU \<times> transacao)" where
  "sku_create codigo u nome medida fator t =
     (if needs_rollback t then Inl TransactionManagementError
      else if \<exists>s \<in> set (skus (banco_tx t)). codigo_sku s = codigo \<and> unidade_negocio s = u
      then Inl IntegrityError
      else
        (let b = banco_tx t;
             s = \<lparr>sku_id = novo_id (map sku_id (skus b)), codigo_sku = codigo,
                  nome_produto = nome, unidade_negocio = u, unidade_medida = medida,
                  fator_conversao = fator, sku_ativo = True\<rparr>
         in Inr (s, t\<lparr>banco_tx := b\<lparr>skus := skus b @ [s]\<rparr>\<rparr>)))"

text \<open>
  \<^verbatim>\<open>SKU.objects.get_or_create(codigo_sku=..., unidade_negocio=..., defaults=...)\<close>: the row
  when \<^verbatim>\<open>get\<close> finds one; after \<^verbatim>\<open>DoesNotExist\<close> the insert, in a savepoint of its own;
  after an \<^verbatim>\<open>IntegrityError\<close> of the insert a second \<^verbatim>\<open>get\<close>, and the error again when
  that finds nothing. The Boolean is \<^verbatim>\<open>created\<close>.
\<close>

definition sku_get_or_create ::
  "string \<Rightarrow> nat \<Rightarrow> string \<Rightarrow> string \<Rightarrow> int \<Rightarrow> transacao
     \<Rightarrow> exn + (SKU \<times> bool \<times> transacao)" where
  "sku_get_or_create codigo u nome medida fator t =
     (let P = (\<lambda>s. codigo_sku s = codigo \<and> unidade_negocio s = u) in
      case sku_get P t of
        Inr s \<Rightarrow> Inr (s, False, t)
      | Inl DoesNotExist \<Rightarrow>
          (case sku_create codigo u nome medida fator t of
             Inr (s, t') \<Rightarrow> Inr (s, True, t')
           | Inl IntegrityError \<Rightarrow>
               (case sku_get P t of
                  Inr s \<Rightarrow> Inr (s, False, t)
                | Inl DoesNotExist \<Rightarrow> Inl IntegrityError
                | Inl x \<Rightarrow> Inl x)
           | Inl x \<Rightarrow> Inl x)
      | Inl x \<Rightarrow> Inl x)"

text \<open>\<^verbatim>\<open>sku.save()\<close> of a row read from the table: the update of the row with that id.\<close>

definition sku_save :: "SKU \<Rightarrow> transacao \<Rightarrow> exn + transacao" where
  "sku_save s t =
     (if needs_rollback t then Inl TransactionManagementError
      else
        (let b = banco_tx t in
         Inr (t\<lparr>banco_tx := b\<lparr>skus := map (\<lambda>x. if sku_id x = sku_id s then s else x) (skus b)\<rparr>\<rparr>)))"

definition lote_get :: "(LoteValidade \<Rightarrow> bool) \<Rightarrow> transacao \<Rightarrow> exn + LoteValidade" where
  "lote_get P t =
     (if needs_rollback t then Inl TransactionManagementError
      else get_um (filter P (lotes (banco_tx t))))"

text \<open>
  The values \<^verbatim>\<open>get_or_create\<close> builds a new lot from: the lookup's keyword arguments and
  the \<^verbatim>\<open>defaults\<close>. The date is optional here because processar\_grade\_020502 passes
  \<^verbatim>\<open>data_validade=None\<close>.
\<close>

record lote_params =
  p_sku :: nat
  p_numero_lote :: string
  p_data_validade :: "date option"
  p_qtd_estoque :: int
  p_estoque_display :: string

text \<open>
  What the table refuses, by the declarations of models.py: a lot without a date
  (\<open>data_validade\<close> is not nullable), a negative quantity (\<^verbatim>\<open>PositiveIntegerField\<close>), and
  a second lot of one product with the same number
  (\<^verbatim>\<open>unique_together = ['sku', 'numero_lote']\<close>).
\<close>

definition lote_create :: "lote_params \<Rightarrow> transacao \<Rightarrow> exn + (LoteValidade \<times> transacao)" where
  "lote_create p t =
     (if needs_rollback t then Inl TransactionManagementError
      else
        (case p_data_validade p of
           None \<Rightarrow> Inl IntegrityError
         | Some d \<Rightarrow>
             if p_qtd_estoque p < 0 then Inl IntegrityError
             else if \<exists>l \<in> set (lotes (banco_tx t)).
                       lote_sku l = p_sku p \<and> numero_lote l = p_numero_lote p
             then Inl IntegrityError
             else
               (let b = banco_tx t;
                    l = \<lparr>lote_id = novo_id (map lote_id (lotes b)), lote_sku = p_sku p,
                         numero_lote = p_numero_lote p, data_validade = d,
                         qtd_estoque = p_qtd_estoque p,
                         estoque_display = p_estoque_display p, lote_ativo = True\<rparr>
                in Inr (l, t\<lparr>banco_tx := b\<lparr>lotes := lotes b @ [l]\<rparr>\<rparr>))))"

definition lote_get_or_create ::
  "(LoteValidade \<Rightarrow> bool) \<Rightarrow> lote_params \<Rightarrow> transacao
     \<Rightarrow> exn + (LoteValidade \<times> bool \<times> transacao)" where
  "lote_get_or_create P p t =
     (case lote_get P t of
        Inr l \<Rightarrow> Inr (l, False, t)
      | Inl DoesNotExist \<Rightarrow>
          (case lote_create p t of
             Inr (l, t') \<Rightarrow> Inr (l, True, t')
           | Inl IntegrityError \<Rightarrow>
               (case lote_get P t of
                  Inr l \<Rightarrow> Inr (l, False, t)
                | Inl DoesNotExist \<Rightarrow> Inl IntegrityError
                | Inl x \<Rightarrow> Inl x)
           | Inl x \<Rightarrow> Inl x)
      | Inl x \<Rightarrow> Inl x)"

text \<open>
  \<^verbatim>\<open>lote.save()\<close> of a row read from the table. It runs outside any savepoint: when the
  database refuses the update, \<^verbatim>\<open>Model.save\<close> marks the transaction
  (\<^verbatim>\<open>needs_rollback\<close>) before the exception reaches the caller.
\<close>

definition lote_save :: "LoteValidade \<Rightarrow> transacao \<Rightarrow> exn option \<times> transacao" where
  "lote_save l t =
     (if needs_rollback t then (Some TransactionManagementError, t)
      else if qtd_estoque l < 0
              \<or> (\<exists>x \<in> set (lotes (banco_tx t)).
                    lote_id x \<noteq> lote_id l \<and> lote_sku x = lote_sku l \<and> numero_lote x = numero_lote l)
      then (Some IntegrityError, t\<lparr>needs_rollback := True\<rparr>)
      else
        (let b = banco_tx t in
         (None, t\<lparr>banco_tx := b\<lparr>lotes := map (\<lambda>x. if lote_id x = lote_id l then l else x) (lotes b)\<rparr>\<rparr>)))"

text \<open>
  The decorator \<^verbatim>\<open>@transaction.atomic\<close> around a method: the writes are kept when the
  method returns and the transaction is not marked, and undone when it raises or the
  transaction is marked.
\<close>

definition atomic :: "(transacao \<Rightarrow> (exn + 'a) \<times> transacao) \<Rightarrow> banco \<Rightarrow> (exn + 'a) \<times> banco" where
  "atomic f b =
     (case f \<lparr>banco_tx = b, needs_rollback = False\<rparr> of
        (Inl x, t) \<Rightarrow> (Inl x, b)
      | (Inr r, t) \<Rightarrow> (Inr r, if needs_rollback t then b else banco_tx t))"

section \<open>The spreadsheet importer (EstoqueImportService)\<close>

record UnidadeNegocio =
  un_id :: nat
  codigo_unb :: string
  nome :: string

text \<open>\<^verbatim>\<open>UnidadeNegocio.__str__\<close>.\<close>

definition str_unidade :: "UnidadeNegocio \<Rightarrow> string" where
  "str_unidade un = codigo_unb un @ '' - '' @ nome un"

text \<open>
  The entries of \<^verbatim>\<open>self.warnings\<close>: the line number and the product code the message is
  formatted from ("SKU ... nao encontrado", "Data de validade invalida para SKU ...").
  An entry of \<^verbatim>\<open>self.errors\<close> is the line number and the exception whose text it shows.
\<close>

datatype aviso =
    SKU_nao_encontrado int string
  | Data_invalida int string

text \<open>The counters and lists of the service object, as \<^verbatim>\<open>_reset_counters\<close> leaves them.\<close>

record service =
  self_errors :: "(int \<times> exn) list"
  self_warnings :: "aviso list"
  processed_count :: nat
  created_count :: nat
  updated_count :: nat

definition reset_counters :: service where
  "reset_counters =
     \<lparr>self_errors = [], self_warnings = [], processed_count = 0, created_count = 0,
      updated_count = 0\<rparr>"

text \<open>
  The dictionaries the two methods return: the one \<^verbatim>\<open>_build_result\<close> builds (its
  \<^verbatim>\<open>timestamp\<close> entry, the clock's reading, is left out), and the one of the outer
  \<^verbatim>\<open>except\<close> clause.
\<close>

record result =
  success :: bool
  tipo :: string
  unidade :: string
  processed :: nat
  created :: nat
  updated :: nat
  errors :: "(int \<times> exn) list"
  warnings :: "aviso list"

record falha =
  f_success :: bool
  f_error :: exn
  f_processed :: nat

datatype retorno = Relatorio result | Falha falha

definition build_result :: "string \<Rightarrow> UnidadeNegocio \<Rightarrow> service \<Rightarrow> result" where
  "build_result tp un sv =
     \<lparr>success = (length (self_errors sv) = 0 \<or> 0 < processed_count sv),
      tipo = tp,
      unidade = str_unidade un,
      processed = processed_count sv,
      created = created_count sv,
      updated = updated_count sv,
      errors = self_errors sv,
      warnings = self_warnings sv\<rparr>"

definition falhou :: "exn \<Rightarrow> retorno" where
  "falhou x = Falha \<lparr>f_success = False, f_error = x, f_processed = 0\<rparr>"

text \<open>
  The label \<^verbatim>\<open>df.iterrows()\<close> gives with each row. With pandas' default index it is the
  row's position, an integer; \<^verbatim>\<open>read_csv\<close> takes the first field of each line as the label
  when the data lines have one field more than the header line, and then it is whatever
  that field holds. \<^verbatim>\<open>idx + 2\<close> is the line number of the messages; on a text label the
  addition raises \<^verbatim>\<open>TypeError\<close>.
\<close>

datatype rotulo = Rotulo_int int | Rotulo_str string

definition linha :: "rotulo \<Rightarrow> exn + int" where
  "linha idx = (case idx of Rotulo_int i \<Rightarrow> Inr (i + 2) | Rotulo_str _ \<Rightarrow> Inl TypeError)"

text \<open>
  What the method has when its loop starts (lines 173-187, 267-278): either
  \<^verbatim>\<open>_read_file\<close>, the check of the required columns or one of the pandas conversions
  raised, or the frame is there, each row with its label and its cells. A text cell is
  given as \<^verbatim>\<open>str\<close> of the cell, which is \<^verbatim>\<open>'nan'\<close> for an empty one; the quantity cells
  are integers after \<^verbatim>\<open>astype(int)\<close>.
\<close>

datatype 'r leitura = Excecao exn | Linhas "(rotulo \<times> 'r) list"

record linha_grade =
  g_codigo_sku :: string
  g_nome_produto :: string
  g_unidade_medida :: string
  g_fator_conversao :: int
  g_estoque_display :: string
  g_qtd_estoque :: int

text \<open>
  A cell of the column \<open>data_validade\<close> as \<^verbatim>\<open>_parse_date\<close> tells them apart: empty
  (\<^verbatim>\<open>NaN\<close>, \<^verbatim>\<open>None\<close>), a \<^verbatim>\<open>datetime\<close> or a value with a \<^verbatim>\<open>date()\<close> method (a
  spreadsheet's date cell), or anything else, by its \<^verbatim>\<open>str\<close>.
\<close>

datatype celula = Cel_vazia | Cel_data date | Cel_texto string

record linha_contagem =
  c_codigo_sku :: string
  c_data_validade :: celula
  c_qtd_caixas :: int
  c_qtd_unidades :: int




text \<open>
  The body of the inner \<^verbatim>\<open>try\<close> of processar\_grade\_020502 (lines 191-233) on one row:
  the exception it raises, if any, and the state it leaves. What was written and counted
  before an exception stays.
\<close>

definition grade_linha ::
  "UnidadeNegocio \<Rightarrow> linha_grade \<Rightarrow> service \<times> transacao \<Rightarrow> exn option \<times> service \<times> transacao" where
  "grade_linha un row st =
     (let (sv, t) = st;
          codigo = strip (g_codigo_sku row);
          nome_novo = strip (g_nome_produto row);
          medida = upper (strip (g_unidade_medida row));
          fator = g_fator_conversao row
      in
      if sem_codigo (g_codigo_sku row) then (None, sv, t)
      else
        (case sku_get_or_create codigo (un_id un) nome_novo medida fator t of
           Inl x \<Rightarrow> (Some x, sv, t)
         | Inr (s, sku_created, t1) \<Rightarrow>
             (case (if \<not> sku_created
                    then (case sku_save (s\<lparr>nome_produto := nome_novo, unidade_medida := medida,
                                           fator_conversao := fator\<rparr>) t1 of
                            Inl x \<Rightarrow> Inl x
                          | Inr t2 \<Rightarrow> Inr (sv\<lparr>updated_count := updated_count sv + 1\<rparr>, t2))
                    else Inr (sv\<lparr>created_count := created_count sv + 1\<rparr>, t1)) of
                Inl x \<Rightarrow> (Some x, sv, t1)
              | Inr (sv2, t2) \<Rightarrow>
                  (case lote_get_or_create
                          (\<lambda>l. lote_sku l = sku_id s \<and> numero_lote l = ''BASE''
                                \<and> Some (data_validade l) = (None :: date option))
                          \<lparr>p_sku = sku_id s, p_numero_lote = ''BASE'', p_data_validade = None,
                           p_qtd_estoque = g_qtd_estoque row,
                           p_estoque_display = strip (g_estoque_display row)\<rparr> t2 of
                     Inl x \<Rightarrow> (Some x, sv2, t2)
                   | Inr (l, lote_created, t3) \<Rightarrow>
                       (case (if \<not> lote_created
                              then lote_save (l\<lparr>qtd_estoque := g_qtd_estoque row,
                                                estoque_display := strip (g_estoque_display row)\<rparr>) t3
                              else (None, t3)) of
                          (Some x, t4) \<Rightarrow> (Some x, sv2, t4)
                        | (None, t4) \<Rightarrow>
                            (None, sv2\<lparr>processed_count := processed_count sv2 + 1\<rparr>, t4))))))"


text \<open>
  The per-row guard: \<^verbatim>\<open>except Exception as e: self.errors.append(f"Linha {idx + 2}: ...")\<close>.
  \<open>Inr\<close> is the state the loop goes on with; \<open>Inl\<close> is an exception that leaves the guard,
  which only the handler's own \<^verbatim>\<open>idx + 2\<close> can raise.
\<close>

definition guarda ::
  "rotulo \<Rightarrow> exn option \<times> service \<times> transacao
     \<Rightarrow> (exn \<times> service \<times> transacao) + (service \<times> transacao)" where
  "guarda idx r =
     (case r of
        (None, sv, t) \<Rightarrow> Inr (sv, t)
      | (Some x, sv, t) \<Rightarrow>
          (case linha idx of
             Inl y \<Rightarrow> Inl (y, sv, t)
           | Inr n \<Rightarrow> Inr (sv\<lparr>self_errors := self_errors sv @ [(n, x)]\<rparr>, t)))"

text \<open>\<^verbatim>\<open>for idx, row in df.iterrows()\<close> around a guarded body.\<close>

fun iterrows ::
  "(rotulo \<Rightarrow> 'r \<Rightarrow> service \<times> transacao \<Rightarrow> exn option \<times> service \<times> transacao)
     \<Rightarrow> (rotulo \<times> 'r) list \<Rightarrow> service \<times> transacao
     \<Rightarrow> (exn \<times> service \<times> transacao) + (service \<times> transacao)" where
  "iterrows corpo [] st = Inr st"
| "iterrows corpo ((idx, row) # rows) st =
     (case guarda idx (corpo idx row st) of
        Inl x \<Rightarrow> Inl x
      | Inr st' \<Rightarrow> iterrows corpo rows st')"

text \<open>
  The method under the decorator: the outer \<^verbatim>\<open>try\<close> turns every exception into the
  failure dictionary and returns it, so the method itself never raises.
\<close>

definition importar ::
  "string \<Rightarrow> (rotulo \<Rightarrow> 'r \<Rightarrow> service \<times> transacao \<Rightarrow> exn option \<times> service \<times> transacao)
     \<Rightarrow> UnidadeNegocio \<Rightarrow> 'r leitura \<Rightarrow> transacao \<Rightarrow> (exn + retorno) \<times> transacao" where
  "importar tp corpo un file t =
     (case file of
        Excecao x \<Rightarrow> (Inr (falhou x), t)
      | Linhas rows \<Rightarrow>
          (case iterrows corpo rows (reset_counters, t) of
             Inl (x, sv, t') \<Rightarrow> (Inr (falhou x), t')
           | Inr (sv, t') \<Rightarrow> (Inr (Relatorio (build_result tp un sv)), t')))"

definition processar_grade_020502 ::
  "UnidadeNegocio \<Rightarrow> linha_grade leitura \<Rightarrow> banco \<Rightarrow> (exn + retorno) \<times> banco" where
  "processar_grade_020502 un file b =
     atomic (importar ''Grade 020502'' (\<lambda>idx. grade_linha un) un file) b"


section \<open>Example data\<close>

text \<open>A product of unit 1, two of its lots, and alert configurations.\<close>

definition hoje_ex :: date where
  "hoje_ex = \<lparr>year = 2025, month = 1, day = 1\<rparr>"

definition sku_ex :: SKU where
  "sku_ex = \<lparr>sku_id = 1, codigo_sku = ''SKU001'', nome_produto = ''Leite'', unidade_negocio = 1,
             unidade_medida = ''CX'', fator_conversao = 12, sku_ativo = True\<rparr>"

definition lote_em :: "nat \<Rightarrow> string \<Rightarrow> date \<Rightarrow> int \<Rightarrow> LoteValidade" where
  "lote_em i n d q =
     \<lparr>lote_id = i, lote_sku = 1, numero_lote = n, data_validade = d, qtd_estoque = q,
      estoque_display = [], lote_ativo = True\<rparr>"

definition lote_25 :: LoteValidade where
  "lote_25 = lote_em 1 ''L1'' \<lparr>year = 2025, month = 1, day = 26\<rparr> 5"

definition lote_31 :: LoteValidade where
  "lote_31 = lote_em 2 ''L2'' \<lparr>year = 2025, month = 2, day = 1\<rparr> 7"

definition cfg_global_inativa :: ConfiguracaoAlerta where
  "cfg_global_inativa =
     \<lparr>cfg_id = 1, cfg_unidade = None, dias_para_critico = 10, dias_para_pre_bloqueio = 20,
      cfg_ativo = False\<rparr>"

definition cfg_global :: ConfiguracaoAlerta where
  "cfg_global =
     \<lparr>cfg_id = 2, cfg_unidade = None, dias_para_critico = 30, dias_para_pre_bloqueio = 45,
      cfg_ativo = True\<rparr>"

definition cfg_unidade_inativa :: ConfiguracaoAlerta where
  "cfg_unidade_inativa =
     \<lparr>cfg_id = 3, cfg_unidade = Some 1, dias_para_critico = 5, dias_para_pre_bloqueio = 10,
      cfg_ativo = False\<rparr>"

definition banco_ex :: "ConfiguracaoAlerta list \<Rightarrow> banco" where
  "banco_ex cs = \<lparr>skus = [sku_ex], lotes = [lote_31, lote_25], configuracoes = cs\<rparr>"



text \<open>A unit, database states around the product above, and rows of the two spreadsheets. \<open>strptime_ex\<close> is \<^verbatim>\<open>strptime\<close> on the one text the rows use.\<close>

definition un_ex :: UnidadeNegocio where
  "un_ex = \<lparr>un_id = 1, codigo_unb = ''UNB01'', nome = ''Matriz''\<rparr>"

definition d2030 :: date where
  "d2030 = \<lparr>year = 2030, month = 1, day = 1\<rparr>"

definition banco_sku :: "LoteValidade list \<Rightarrow> banco" where
  "banco_sku ls = \<lparr>skus = [sku_ex], lotes = ls, configuracoes = []\<rparr>"

definition strptime_ex :: "string \<Rightarrow> string \<Rightarrow> date option" where
  "strptime_ex s fmt = (if s = ''01/01/2030'' \<and> fmt = ''%d/%m/%Y'' then Some d2030 else None)"

definition linha_c :: "string \<Rightarrow> int \<Rightarrow> int \<Rightarrow> linha_contagem" where
  "linha_c cod cx u =
     \<lparr>c_codigo_sku = cod, c_data_validade = Cel_texto ''01/01/2030'', c_qtd_caixas = cx,
      c_qtd_unidades = u\<rparr>"

definition linha_g :: linha_grade where
  "linha_g =
     \<lparr>g_codigo_sku = ''SKU001'', g_nome_produto = ''Leite'', g_unidade_medida = ''cx'',
      g_fator_conversao = 12, g_estoque_display = ''388/06'', g_qtd_estoque = 5\<rparr>"

definition lote_val :: "int \<Rightarrow> LoteValidade" where
  "lote_val q = lote_em 1 ''VAL_20300101'' d2030 q"





section \<open>Lemmas about the classifier\<close>

lemmas ex_defs = hoje_ex_def sku_ex_def lote_em_def lote_25_def lote_31_def cfg_global_inativa_def
  cfg_global_def cfg_unidade_inativa_def banco_ex_def
lemmas date_defs = toordinal_def days_before_year_def days_before_month_def is_leap_def days_between_def

lemma first_Some_iff: "first xs = Some x \<longleftrightarrow> (\<exists>ys. xs = x # ys)"
  by (cases xs) (auto simp: first_def)

lemma first_None_iff: "first xs = None \<longleftrightarrow> xs = []"
  by (cases xs) (auto simp: first_def)

lemma sort_key_Nil_iff: "sort_key f xs = [] \<longleftrightarrow> xs = []"
  by (metis length_0_conv length_sort)

lemma first_sort_key_min:
  assumes "first (sort_key f xs) = Some x"
  shows "x \<in> set xs \<and> (\<forall>y \<in> set xs. f x \<le> f y)"
proof -
  from assms obtain ys where eq: "sort_key f xs = x # ys"
    by (auto simp: first_Some_iff)
  have "sorted (map f (sort_key f xs))" by simp
  with eq have le: "\<forall>y \<in> set ys. f x \<le> f y" by simp
  have "set (sort_key f xs) = set xs" by simp
  with eq have "set xs = insert x (set ys)" by simp
  with le show ?thesis by auto
qed

lemma lote_mais_proximo_None_iff:
  "lote_mais_proximo ls s = None \<longleftrightarrow> lotes_elegiveis ls s = []"
  by (simp add: lote_mais_proximo_def first_None_iff sort_key_Nil_iff)

lemma lote_mais_proximo_Some:
  assumes "lote_mais_proximo ls s = Some l"
  shows "l \<in> set ls \<and> lote_sku l = sku_id s \<and> lote_ativo l \<and> 0 < qtd_estoque l
         \<and> (\<forall>l' \<in> set ls. lote_sku l' = sku_id s \<and> lote_ativo l' \<and> 0 < qtd_estoque l'
               \<longrightarrow> toordinal (data_validade l) \<le> toordinal (data_validade l'))"
  using first_sort_key_min [OF assms [unfolded lote_mais_proximo_def]]
  by (auto simp: lotes_elegiveis_def)

lemma get_status_Some:
  "lote_mais_proximo (lotes b) s = Some l \<Longrightarrow>
   get_status b hoje s config =
     classificar (days_between (data_validade l) hoje)
       (fst (limiares (resolve_config b s config))) (snd (limiares (resolve_config b s config))) l"
  by (simp add: get_status_def split: prod.splits)

lemma lmp_ex: "lote_mais_proximo (lotes (banco_ex cs)) sku_ex = Some lote_25"
  by (simp add: lote_mais_proximo_def lotes_elegiveis_def first_def ex_defs date_defs)

lemma dias_ex: "days_between (data_validade lote_25) hoje_ex = 25"
  by (simp add: ex_defs date_defs)

lemma configuracao_global_Some:
  assumes "configuracao_global b = Some g"
  shows "g \<in> set (configuracoes b) \<and> cfg_unidade g = None \<and> cfg_ativo g"
  using first_sort_key_min [OF assms [unfolded configuracao_global_def]] by simp


lemma configuracao_da_unidade_Some:
  "configuracao_da_unidade b u = Some c \<Longrightarrow> c \<in> set (configuracoes b) \<and> cfg_unidade c = Some u"
  by (auto simp: configuracao_da_unidade_def find_Some_iff)


lemma unidade_ex:
  "configuracao_da_unidade (banco_ex [cfg_global, cfg_unidade_inativa]) (unidade_negocio sku_ex)
     = Some cfg_unidade_inativa"
  by (simp add: configuracao_da_unidade_def ex_defs)

lemma sem_unidade_ex:
  "configuracao_da_unidade (banco_ex [cfg_global_inativa, cfg_global]) (unidade_negocio sku_ex) = None"
  "configuracao_da_unidade (banco_ex [cfg_global_inativa]) (unidade_negocio sku_ex) = None"
  "configuracao_da_unidade (banco_ex [cfg_global]) (unidade_negocio sku_ex) = None"
  by (simp_all add: configuracao_da_unidade_def ex_defs)

lemma global_ex:
  "configuracao_global (banco_ex [cfg_global_inativa, cfg_global]) = Some cfg_global"
  "configuracao_global (banco_ex [cfg_global]) = Some cfg_global"
  "configuracao_global (banco_ex [cfg_global_inativa]) = None"
  by (simp_all add: configuracao_global_def first_def ex_defs)


section \<open>Lemmas about the importer\<close>



lemma lote_get_or_create_sem_data:
  assumes "p_data_validade p = None" and "\<And>l. \<not> P l"
  shows "\<exists>x. lote_get_or_create P p t = Inl x"
  using assms
  by (auto simp: lote_get_or_create_def lote_get_def lote_create_def get_um_def
      split: sum.splits exn.splits list.splits)

lemma sku_get_or_create_lotes:
  "sku_get_or_create c u n m f t = Inr (s, cr, t') \<Longrightarrow>
     lotes (banco_tx t') = lotes (banco_tx t) \<and> needs_rollback t' = needs_rollback t"
  by (auto simp: sku_get_or_create_def sku_create_def Let_def
      split: sum.splits exn.splits if_splits)

lemma sku_save_lotes:
  "sku_save s t = Inr t' \<Longrightarrow>
     lotes (banco_tx t') = lotes (banco_tx t) \<and> needs_rollback t' = needs_rollback t"
  by (auto simp: sku_save_def Let_def split: if_splits)

lemma grade_linha_lotes:
  assumes "grade_linha un row (sv, t) = (x, sv', t')"
  shows "lotes (banco_tx t') = lotes (banco_tx t) \<and> needs_rollback t' = needs_rollback t
         \<and> processed_count sv' = processed_count sv
         \<and> (x = None \<longrightarrow> sem_codigo (g_codigo_sku row))"
proof (cases "sem_codigo (g_codigo_sku row)")
  case True
  with assms show ?thesis by (simp add: grade_linha_def Let_def)
next
  case False
  have base: "\<And>sid q disp t2. \<exists>x. lote_get_or_create
          (\<lambda>l. lote_sku l = sid \<and> numero_lote l = ''BASE''
                \<and> Some (data_validade l) = (None :: date option))
          \<lparr>p_sku = sid, p_numero_lote = ''BASE'', p_data_validade = None,
           p_qtd_estoque = q, p_estoque_display = disp\<rparr> t2 = Inl x"
    by (rule lote_get_or_create_sem_data) simp_all
  show ?thesis
  proof (cases "sku_get_or_create (strip (g_codigo_sku row)) (un_id un) (strip (g_nome_produto row))
                  (upper (strip (g_unidade_medida row))) (g_fator_conversao row) t")
    case (Inl e)
    with assms False show ?thesis by (auto simp: grade_linha_def Let_def)
  next
    case (Inr r)
    obtain s cr t1 where r: "r = (s, cr, t1)" by (cases r) auto
    note g = sku_get_or_create_lotes [OF Inr [unfolded r]]
    show ?thesis
    proof (cases cr)
      case True
      obtain e where "lote_get_or_create
          (\<lambda>l. lote_sku l = sku_id s \<and> numero_lote l = ''BASE''
                \<and> Some (data_validade l) = (None :: date option))
          \<lparr>p_sku = sku_id s, p_numero_lote = ''BASE'', p_data_validade = None,
           p_qtd_estoque = g_qtd_estoque row,
           p_estoque_display = strip (g_estoque_display row)\<rparr> t1 = Inl e"
        using base by blast
      with assms False Inr r True g show ?thesis
        by (auto simp: grade_linha_def Let_def)
    next
      case nc: False
      show ?thesis
      proof (cases "sku_save (s\<lparr>nome_produto := strip (g_nome_produto row),
                     unidade_medida := upper (strip (g_unidade_medida row)),
                     fator_conversao := g_fator_conversao row\<rparr>) t1")
        case (Inl e)
        with assms False Inr r nc g show ?thesis
          by (auto simp: grade_linha_def Let_def)
      next
        case sv: (Inr t2)
        note g2 = sku_save_lotes [OF sv]
        obtain e where "lote_get_or_create
            (\<lambda>l. lote_sku l = sku_id s \<and> numero_lote l = ''BASE''
                  \<and> Some (data_validade l) = (None :: date option))
            \<lparr>p_sku = sku_id s, p_numero_lote = ''BASE'', p_data_validade = None,
             p_qtd_estoque = g_qtd_estoque row,
             p_estoque_display = strip (g_estoque_display row)\<rparr> t2 = Inl e"
          using base by blast
        with assms False Inr r nc g sv g2 show ?thesis
          by (auto simp: grade_linha_def Let_def)
      qed
    qed
  qed
qed

lemma iterrows_inv:
  assumes step: "\<And>idx row st st'. I st \<Longrightarrow> guarda idx (corpo idx row st) = Inr st' \<Longrightarrow> I st'"
  shows "I st \<Longrightarrow> iterrows corpo rows st = Inr st' \<Longrightarrow> I st'"
proof (induction rows arbitrary: st)
  case Nil
  then show ?case by simp
next
  case (Cons r rows)
  obtain idx row where r: "r = (idx, row)" by (cases r) auto
  from Cons.prems(2) obtain st1 where g: "guarda idx (corpo idx row st) = Inr st1"
    and it: "iterrows corpo rows st1 = Inr st'"
    by (auto simp: r split: sum.splits)
  from step [OF Cons.prems(1) g] have "I st1" .
  from Cons.IH [OF this it] show ?case .
qed




lemmas imp_ex_defs = un_ex_def d2030_def banco_sku_def strptime_ex_def linha_c_def linha_g_def
  lote_val_def sku_ex_def lote_em_def

lemma guarda_Inr:
  "guarda idx (x, sv, t) = Inr (sv', t') \<Longrightarrow>
     t' = t \<and> ((x = None \<and> sv' = sv)
       \<or> (\<exists>e n. x = Some e \<and> sv' = sv\<lparr>self_errors := self_errors sv @ [(n, e)]\<rparr>))"
  by (auto simp: guarda_def split: option.splits sum.splits)











lemma iterrows_inv_Inl:
  assumes step: "\<And>idx row st st'. I st \<Longrightarrow> guarda idx (corpo idx row st) = Inr st' \<Longrightarrow> I st'"
    and stop: "\<And>idx row st x st'. I st \<Longrightarrow> guarda idx (corpo idx row st) = Inl (x, st') \<Longrightarrow> I st'"
  shows "I st \<Longrightarrow> iterrows corpo rows st = Inl (x, st') \<Longrightarrow> I st'"
proof (induction rows arbitrary: st)
  case Nil
  then show ?case by simp
next
  case (Cons r rows)
  obtain idx row where r: "r = (idx, row)" by (cases r) auto
  show ?case
  proof (cases "guarda idx (corpo idx row st)")
    case (Inl a)
    with Cons.prems(2) r have "a = (x, st')" by simp
    with stop [OF Cons.prems(1)] Inl show ?thesis by simp
  next
    case (Inr st1)
    with Cons.prems(2) r have "iterrows corpo rows st1 = Inl (x, st')" by simp
    with Cons.IH step [OF Cons.prems(1) Inr] show ?thesis by blast
  qed
qed

lemma guarda_Inl:
  "guarda idx (x, sv, t) = Inl (y, sv', t') \<Longrightarrow> t' = t \<and> sv' = sv"
  by (auto simp: guarda_def split: option.splits sum.splits)

text \<open>
  processar\_grade\_020502 never writes a lot and never counts a row as processed: its
  lookup of the lot asks for a null \<open>data_validade\<close>, which no stored lot has, and the
  insert that follows is refused for the same null date.
\<close>

lemma grade_sem_lote:
  "lotes (snd (processar_grade_020502 un file b)) = lotes b
   \<and> (\<forall>r. fst (processar_grade_020502 un file b) = Inr (Relatorio r) \<longrightarrow> processed r = 0)"
proof (cases "file")
  case (Excecao x)
  then show ?thesis
    by (simp add: processar_grade_020502_def atomic_def importar_def falhou_def)
next
  case (Linhas rows)
  let ?t0 = "\<lparr>banco_tx = b, needs_rollback = False\<rparr>"
  let ?I = "\<lambda>(sv, t). lotes (banco_tx t) = lotes b \<and> processed_count sv = 0"
  have i0: "?I (reset_counters, ?t0)" by (simp add: reset_counters_def)
  have step: "\<And>idx row st st'. ?I st \<Longrightarrow> guarda idx (grade_linha un row st) = Inr st' \<Longrightarrow> ?I st'"
  proof -
    fix idx row and st st' :: "service \<times> transacao"
    assume i: "?I st" and g: "guarda idx (grade_linha un row st) = Inr st'"
    obtain sv t where st: "st = (sv, t)" by (cases st) auto
    obtain sv' t' where st': "st' = (sv', t')" by (cases st') auto
    obtain x sv1 t1 where b: "grade_linha un row (sv, t) = (x, sv1, t1)"
      by (cases "grade_linha un row (sv, t)") auto
    from guarda_Inr [OF g [unfolded st st' b]] grade_linha_lotes [OF b] i
    show "?I st'" by (auto simp: st st')
  qed
  have stop: "\<And>idx row st x st'. ?I st \<Longrightarrow> guarda idx (grade_linha un row st) = Inl (x, st') \<Longrightarrow> ?I st'"
  proof -
    fix idx row x and st st' :: "service \<times> transacao"
    assume i: "?I st" and g: "guarda idx (grade_linha un row st) = Inl (x, st')"
    obtain sv t where st: "st = (sv, t)" by (cases st) auto
    obtain sv' t' where st': "st' = (sv', t')" by (cases st') auto
    obtain y sv1 t1 where b: "grade_linha un row (sv, t) = (y, sv1, t1)"
      by (cases "grade_linha un row (sv, t)") auto
    from guarda_Inl [OF g [unfolded st st' b]] grade_linha_lotes [OF b] i
    show "?I st'" by (auto simp: st st')
  qed
  show ?thesis
  proof (cases "iterrows (\<lambda>idx. grade_linha un) rows (reset_counters, ?t0)")
    case (Inl a)
    obtain x sv t where a: "a = (x, sv, t)" by (cases a) auto
    from iterrows_inv_Inl [where I = ?I and corpo = "\<lambda>idx. grade_linha un", OF step stop i0 Inl [unfolded a]]
    have "lotes (banco_tx t) = lotes b" by simp
    with Linhas Inl a show ?thesis
      by (simp add: processar_grade_020502_def atomic_def importar_def falhou_def)
  next
    case (Inr a)
    obtain sv t where a: "a = (sv, t)" by (cases a) auto
    from iterrows_inv [where I = ?I and corpo = "\<lambda>idx. grade_linha un", OF step i0 Inr [unfolded a]]
    have "lotes (banco_tx t) = lotes b \<and> processed_count sv = 0" by simp
    with Linhas Inr a show ?thesis
      by (simp add: processar_grade_020502_def atomic_def importar_def build_result_def)
  qed
qed







section \<open>Claims about the classifier\<close>

text \<open>
  Claim C1. For a product with a nearest lot and an effective configuration whose
  thresholds satisfy \<open>c < p\<close>, \<open>get_status\<close> classifies
  \<open>d = (lot.data_validade - today).days\<close> by the first match of: \<open>d < 0\<close> gives VENCIDO
  (expired, colour preto), \<open>d \<le> c\<close> gives CRITICO (vermelho), \<open>d \<le> p\<close> gives PRE\_BLOQUEIO
  (amarelo), otherwise OK (verde). In particular \<open>d = c\<close> is CRITICO and \<open>d = c + 1\<close> is
  PRE\_BLOQUEIO.
\<close>

theorem get_status_classifica:
  assumes "lote_mais_proximo (lotes b) s = Some l"
    and "limiares (resolve_config b s config) = (c, p)"
    and "c < p"
    and "d = days_between (data_validade l) hoje"
  shows "get_status b hoje s config =
           (if d < 0 then
              \<lparr>status = ''VENCIDO'', cor = ''preto'', dias_restantes = Some d, lote = Some l\<rparr>
            else if d \<le> int c then
              \<lparr>status = ''CRITICO'', cor = ''vermelho'', dias_restantes = Some d, lote = Some l\<rparr>
            else if d \<le> int p then
              \<lparr>status = ''PRE_BLOQUEIO'', cor = ''amarelo'', dias_restantes = Some d, lote = Some l\<rparr>
            else
              \<lparr>status = ''OK'', cor = ''verde'', dias_restantes = Some d, lote = Some l\<rparr>)
         \<and> (d = int c \<longrightarrow> status (get_status b hoje s config) = ''CRITICO'')
         \<and> (d = int c + 1 \<longrightarrow> status (get_status b hoje s config) = ''PRE_BLOQUEIO'')"
  using assms by (simp add: get_status_Some classificar_def)

theorem get_status_classifica_witness:
  "lote_mais_proximo (lotes (banco_ex [])) sku_ex = Some lote_25
   \<and> limiares (resolve_config (banco_ex []) sku_ex None) = (30, 45)
   \<and> (30 :: nat) < 45
   \<and> get_status (banco_ex []) hoje_ex sku_ex None =
       \<lparr>status = ''CRITICO'', cor = ''vermelho'', dias_restantes = Some 25, lote = Some lote_25\<rparr>"
proof -
  have l: "lote_mais_proximo (lotes (banco_ex [])) sku_ex = Some lote_25" by (rule lmp_ex)
  have c: "limiares (resolve_config (banco_ex []) sku_ex None) = (30, 45)"
    by (simp add: limiares_def resolve_config_def configuracao_da_unidade_def
        configuracao_global_def first_def banco_ex_def)
  have d: "(25 :: int) = days_between (data_validade lote_25) hoje_ex" by (simp add: dias_ex)
  show ?thesis
    using get_status_classifica [OF l c _ d] l c by simp
qed

text \<open>
  Claim C6. A product without an active lot of positive quantity has the status
  SEM\_ESTOQUE, colour cinza, no days and no lot, whatever configuration is passed or
  stored; otherwise the lot reported is an active lot of the product with positive
  quantity whose date is the earliest among those.
\<close>

theorem get_status_sem_estoque:
  "(\<not> (\<exists>l \<in> set (lotes b). lote_sku l = sku_id s \<and> lote_ativo l \<and> 0 < qtd_estoque l)
      \<longrightarrow> get_status b hoje s config =
            \<lparr>status = ''SEM_ESTOQUE'', cor = ''cinza'', dias_restantes = None, lote = None\<rparr>)
   \<and> ((\<exists>l \<in> set (lotes b). lote_sku l = sku_id s \<and> lote_ativo l \<and> 0 < qtd_estoque l)
      \<longrightarrow> (\<exists>l. lote (get_status b hoje s config) = Some l
               \<and> l \<in> set (lotes b) \<and> lote_sku l = sku_id s \<and> lote_ativo l \<and> 0 < qtd_estoque l
               \<and> (\<forall>l' \<in> set (lotes b). lote_sku l' = sku_id s \<and> lote_ativo l' \<and> 0 < qtd_estoque l'
                     \<longrightarrow> toordinal (data_validade l) \<le> toordinal (data_validade l'))))"
proof (intro conjI impI)
  assume "\<not> (\<exists>l \<in> set (lotes b). lote_sku l = sku_id s \<and> lote_ativo l \<and> 0 < qtd_estoque l)"
  then have "lotes_elegiveis (lotes b) s = []"
    by (auto simp: lotes_elegiveis_def filter_empty_conv)
  then have "lote_mais_proximo (lotes b) s = None"
    by (simp add: lote_mais_proximo_None_iff)
  then show "get_status b hoje s config =
      \<lparr>status = ''SEM_ESTOQUE'', cor = ''cinza'', dias_restantes = None, lote = None\<rparr>"
    by (simp add: get_status_def sem_estoque_def)
next
  assume "\<exists>l \<in> set (lotes b). lote_sku l = sku_id s \<and> lote_ativo l \<and> 0 < qtd_estoque l"
  then have "lotes_elegiveis (lotes b) s \<noteq> []"
    by (auto simp: lotes_elegiveis_def filter_empty_conv)
  then obtain l where l: "lote_mais_proximo (lotes b) s = Some l"
    by (cases "lote_mais_proximo (lotes b) s") (auto simp: lote_mais_proximo_None_iff)
  have "lote (get_status b hoje s config) = Some l"
    by (simp add: get_status_Some [OF l] classificar_def)
  with lote_mais_proximo_Some [OF l]
  show "\<exists>l. lote (get_status b hoje s config) = Some l
          \<and> l \<in> set (lotes b) \<and> lote_sku l = sku_id s \<and> lote_ativo l \<and> 0 < qtd_estoque l
          \<and> (\<forall>l' \<in> set (lotes b). lote_sku l' = sku_id s \<and> lote_ativo l' \<and> 0 < qtd_estoque l'
                \<longrightarrow> toordinal (data_validade l) \<le> toordinal (data_validade l'))"
    by blast
qed

theorem get_status_sem_estoque_witness:
  "get_status \<lparr>skus = [sku_ex], lotes = [lote_em 1 ''L1'' hoje_ex 0], configuracoes = [cfg_global]\<rparr>
       hoje_ex sku_ex (Some cfg_unidade_inativa) =
     \<lparr>status = ''SEM_ESTOQUE'', cor = ''cinza'', dias_restantes = None, lote = None\<rparr>
   \<and> lote (get_status (banco_ex []) hoje_ex sku_ex None) = Some lote_25"
proof -
  have "get_status \<lparr>skus = [sku_ex], lotes = [lote_em 1 ''L1'' hoje_ex 0], configuracoes = [cfg_global]\<rparr>
       hoje_ex sku_ex (Some cfg_unidade_inativa) =
     \<lparr>status = ''SEM_ESTOQUE'', cor = ''cinza'', dias_restantes = None, lote = None\<rparr>"
    using get_status_sem_estoque
      [of "\<lparr>skus = [sku_ex], lotes = [lote_em 1 ''L1'' hoje_ex 0], configuracoes = [cfg_global]\<rparr>"
          sku_ex hoje_ex "Some cfg_unidade_inativa"]
    by (simp add: lote_em_def)
  moreover have "\<exists>l \<in> set (lotes (banco_ex [])). lote_sku l = sku_id sku_ex \<and> lote_ativo l \<and> 0 < qtd_estoque l"
    by (simp add: ex_defs)
  then have "\<exists>l. lote (get_status (banco_ex []) hoje_ex sku_ex None) = Some l"
    using get_status_sem_estoque [of "banco_ex []" sku_ex hoje_ex None] by blast
  then have "lote (get_status (banco_ex []) hoje_ex sku_ex None) = Some lote_25"
    by (simp add: get_status_Some [OF lmp_ex] classificar_def)
  ultimately show ?thesis by simp
qed




text \<open>
  Claim C10. Called without a configuration, \<open>get_status\<close> uses the thresholds of the
  configuration of the product's unit whenever the unit has one, also when that
  configuration's \<open>ativo\<close> flag is false; a configuration with a null unit is only ever used
  when it is active. So a unit whose configuration is deactivated does not fall back to the
  global one.
\<close>

theorem get_status_config_inativa:
  "(\<forall>u l. configuracao_da_unidade b (unidade_negocio s) = Some u
          \<and> lote_mais_proximo (lotes b) s = Some l \<longrightarrow>
       get_status b hoje s None =
         classificar (days_between (data_validade l) hoje)
           (dias_para_critico u) (dias_para_pre_bloqueio u) l)
   \<and> (\<forall>g. resolve_config b s None = Some g \<and> cfg_unidade g = None \<longrightarrow> cfg_ativo g)"
proof (intro conjI allI impI)
  fix u l
  assume "configuracao_da_unidade b (unidade_negocio s) = Some u
          \<and> lote_mais_proximo (lotes b) s = Some l"
  then show "get_status b hoje s None =
         classificar (days_between (data_validade l) hoje)
           (dias_para_critico u) (dias_para_pre_bloqueio u) l"
    by (simp add: get_status_Some resolve_config_def limiares_def)
next
  fix g
  assume h: "resolve_config b s None = Some g \<and> cfg_unidade g = None"
  show "cfg_ativo g"
  proof (cases "configuracao_da_unidade b (unidade_negocio s)")
    case None
    with h have "configuracao_global b = Some g" by (simp add: resolve_config_def)
    then show ?thesis by (simp add: configuracao_global_Some)
  next
    case (Some u)
    with h have "u = g" by (simp add: resolve_config_def)
    with Some configuracao_da_unidade_Some [of b "unidade_negocio s" u] h show ?thesis by simp
  qed
qed

theorem get_status_config_inativa_witness:
  "configuracao_da_unidade (banco_ex [cfg_global, cfg_unidade_inativa]) (unidade_negocio sku_ex)
     = Some cfg_unidade_inativa
   \<and> \<not> cfg_ativo cfg_unidade_inativa
   \<and> status (get_status (banco_ex [cfg_global, cfg_unidade_inativa]) hoje_ex sku_ex None) = ''OK''
   \<and> status (classificar 25 (dias_para_critico cfg_global) (dias_para_pre_bloqueio cfg_global)
               lote_25) = ''CRITICO''
   \<and> resolve_config (banco_ex [cfg_global]) sku_ex None = Some cfg_global
   \<and> cfg_ativo cfg_global"
proof -
  have "get_status (banco_ex [cfg_global, cfg_unidade_inativa]) hoje_ex sku_ex None =
      classificar 25 (dias_para_critico cfg_unidade_inativa)
        (dias_para_pre_bloqueio cfg_unidade_inativa) lote_25"
    using get_status_config_inativa [of "banco_ex [cfg_global, cfg_unidade_inativa]" sku_ex hoje_ex]
      unidade_ex lmp_ex dias_ex by simp
  then have a: "status (get_status (banco_ex [cfg_global, cfg_unidade_inativa]) hoje_ex sku_ex None) = ''OK''"
    by (simp add: classificar_def cfg_unidade_inativa_def)
  have r: "resolve_config (banco_ex [cfg_global]) sku_ex None = Some cfg_global"
    by (simp add: resolve_config_def sem_unidade_ex global_ex)
  have "cfg_unidade cfg_global = None" by (simp add: cfg_global_def)
  with r have b: "cfg_ativo cfg_global"
    using get_status_config_inativa [of "banco_ex [cfg_global]" sku_ex hoje_ex] by blast
  have c: "status (classificar 25 (dias_para_critico cfg_global) (dias_para_pre_bloqueio cfg_global)
               lote_25) = ''CRITICO''"
    by (simp add: classificar_def cfg_global_def)
  have d: "\<not> cfg_ativo cfg_unidade_inativa" by (simp add: cfg_unidade_inativa_def)
  show ?thesis using a b c d r unidade_ex by simp
qed


section \<open>Claims about the importer\<close>


















end
